theory Spec2Isabelle
  imports Complex_Main "HOL-Library.AList"
begin

section \<open>JavaScript values and the built-ins the proxy calls\<close>

text \<open>
  The proxy handles dynamically typed data: request bodies, upstream responses and the
  payloads of streamed events are whatever \<^verbatim>\<open>JSON.parse\<close> returns. A value is
  \<^verbatim>\<open>undefined\<close>, \<^verbatim>\<open>null\<close>, a boolean, a number, a string, an array or an
  object whose own properties are kept in insertion order. \<open>JBuiltin k\<close> stands for the
  function or object that every plain object inherits from \<^verbatim>\<open>Object.prototype\<close> under
  the property name \<open>k\<close>. Strings are byte strings: the UTF-8 encoding of the JavaScript string.
\<close>

datatype js =
    JUndefined
  | JNull
  | JBool bool
  | JNum rat
  | JStr string
  | JArr "js list"
  | JObj "(string \<times> js) list"
  | JBuiltin string

text \<open>Truthiness, as \<^verbatim>\<open>if (v)\<close>, \<^verbatim>\<open>!v\<close> and \<^verbatim>\<open>v || d\<close> test it.\<close>

fun truthy :: "js \<Rightarrow> bool" where
  "truthy JUndefined = False"
| "truthy JNull = False"
| "truthy (JBool b) = b"
| "truthy (JNum n) = (n \<noteq> 0)"
| "truthy (JStr s) = (s \<noteq> [])"
| "truthy (JArr xs) = True"
| "truthy (JObj kvs) = True"
| "truthy (JBuiltin k) = True"

text \<open>\<^verbatim>\<open>a || b\<close>\<close>

definition js_or :: "js \<Rightarrow> js \<Rightarrow> js" where
  "js_or a b = (if truthy a then a else b)"

text \<open>
  The names every plain object inherits from \<^verbatim>\<open>Object.prototype\<close>. Each of them reads
  as a function (or, for \<^verbatim>\<open>__proto__\<close>, as the prototype object itself): a truthy value
  that is not a string.
\<close>

definition Object_prototype :: "string list" where
  "Object_prototype =
     [''constructor'', ''__defineGetter__'', ''__defineSetter__'', ''hasOwnProperty'',
      ''__lookupGetter__'', ''__lookupSetter__'', ''isPrototypeOf'', ''propertyIsEnumerable'',
      ''toString'', ''valueOf'', ''__proto__'', ''toLocaleString'']"

text \<open>
  \<^verbatim>\<open>o[k]\<close> and \<^verbatim>\<open>o.k\<close> on a value that is neither \<^verbatim>\<open>undefined\<close> nor
  \<^verbatim>\<open>null\<close>: an own property first, then the prototype chain. On strings, numbers,
  booleans and arrays the proxy only reads field names of the chat-completion format
  (\<^verbatim>\<open>choices\<close>, \<^verbatim>\<open>delta\<close>, \<^verbatim>\<open>message\<close>, \<^verbatim>\<open>content\<close>,
  \<^verbatim>\<open>reasoning_content\<close>, \<^verbatim>\<open>role\<close>, \<^verbatim>\<open>index\<close>,
  \<^verbatim>\<open>finish_reason\<close>, \<^verbatim>\<open>usage\<close>, \<^verbatim>\<open>model\<close>), which none of their
  prototypes defines.
\<close>

fun get_prop :: "js \<Rightarrow> string \<Rightarrow> js" where
  "get_prop (JObj kvs) k =
     (case map_of kvs k of
        Some v \<Rightarrow> v
      | None \<Rightarrow> if k \<in> set Object_prototype then JBuiltin k else JUndefined)"
| "get_prop v k = JUndefined"

text \<open>
  \<^verbatim>\<open>v[0]\<close> on a value that is neither \<^verbatim>\<open>undefined\<close> nor \<^verbatim>\<open>null\<close>. On a
  non-empty string it is a string of one character (here its first byte; the code only
  reads a property of it, which no string has).
\<close>

fun index0 :: "js \<Rightarrow> js" where
  "index0 (JArr (x # xs)) = x"
| "index0 (JObj kvs) = get_prop (JObj kvs) ''0''"
| "index0 (JStr (c # cs)) = JStr [c]"
| "index0 v = JUndefined"

text \<open>
  What the code calls in the JavaScript runtime and does not define itself:
  \<^verbatim>\<open>JSON.parse\<close> (\<open>None\<close> when it throws a SyntaxError), \<^verbatim>\<open>JSON.stringify\<close>,
  \<^verbatim>\<open>String.prototype.toLowerCase\<close>, and the operator \<^verbatim>\<open>+\<close> on operands that are
  not both strings (it converts them, or adds numbers in floating point). The
  definitions below take the runtime as their first argument; a theorem about a free
  \<open>rt\<close> holds for every runtime, and the examples run on the runtime \<open>example_rt\<close>
  defined further down.
\<close>

datatype error = TypeError | SyntaxError

record runtime =
  JSON_parse :: "string \<Rightarrow> js option"
  JSON_stringify :: "js \<Rightarrow> string"
  toLowerCase :: "string \<Rightarrow> string"
  plus_coerce :: "js \<Rightarrow> js \<Rightarrow> js"

text \<open>
  The value of \<^verbatim>\<open>a + b\<close> when converting the operands does not throw:
  concatenation when both are strings.
\<close>

fun js_plus :: "runtime \<Rightarrow> js \<Rightarrow> js \<Rightarrow> js" where
  "js_plus rt (JStr a) (JStr b) = JStr (a @ b)"
| "js_plus rt a b = plus_coerce rt a b"

text \<open>
  \<^verbatim>\<open>+\<close> and a template literal convert an operand that is an object or an array to a
  primitive, and throw a TypeError when neither \<^verbatim>\<open>valueOf\<close> nor \<^verbatim>\<open>toString\<close>
  gives one. No property of a value from \<^verbatim>\<open>JSON.parse\<close> is a function: an object
  converts through the inherited \<^verbatim>\<open>toString\<close>, unless it has an own property of that
  name, which hides the inherited one and cannot be called; an array joins its elements,
  each converted the same way (\<^verbatim>\<open>null\<close> as the empty string).
\<close>

fun to_primitive_throws :: "js \<Rightarrow> bool" where
  "to_primitive_throws (JObj kvs) = (map_of kvs ''toString'' \<noteq> None)"
| "to_primitive_throws (JArr xs) = list_ex to_primitive_throws xs"
| "to_primitive_throws v = False"

text \<open>\<^verbatim>\<open>a + b\<close>, or the TypeError of converting an operand.\<close>

definition plus_checked :: "runtime \<Rightarrow> js \<Rightarrow> js \<Rightarrow> error + js" where
  "plus_checked rt a b =
     (if to_primitive_throws a \<or> to_primitive_throws b then Inl TypeError
      else Inr (js_plus rt a b))"

text \<open>\<^verbatim>\<open>s.startsWith(p)\<close> and \<^verbatim>\<open>s.includes(p)\<close>\<close>

fun startsWith :: "string \<Rightarrow> string \<Rightarrow> bool" where
  "startsWith s [] = True"
| "startsWith [] (p # ps) = False"
| "startsWith (c # cs) (p # ps) = (c = p \<and> startsWith cs ps)"

fun str_includes :: "string \<Rightarrow> string \<Rightarrow> bool" where
  "str_includes [] p = (p = [])"
| "str_includes (c # cs) p = (startsWith (c # cs) p \<or> str_includes cs p)"


section \<open>Model Name Resolver\<close>

text \<open>
  Both deployments look the caller's model string up in a table and fall back to rules on
  its lowercase form. \<open>model\<close> is the caller's string (in the Worker, the empty string
  when the body has none).
\<close>

text \<open>The mapping table of the Cloudflare Worker deployment (\<^verbatim>\<open>worker.js\<close>).\<close>

definition MODEL_MAPPING_worker :: js where
  "MODEL_MAPPING_worker = JObj
     [(''gpt-3.5-turbo'', JStr ''nvidia/llama-3.1-nemotron-ultra-253b-v1''),
      (''gpt-4'', JStr ''qwen/qwen3-coder-480b-a35b-instruct''),
      (''gpt-4-turbo'', JStr ''moonshotai/kimi-k2-instruct-0905''),
      (''gpt-4o'', JStr ''deepseek-ai/deepseek-v3.1''),
      (''claude-3-opus'', JStr ''openai/gpt-oss-120b''),
      (''claude-3-sonnet'', JStr ''openai/gpt-oss-20b''),
      (''gemini-pro'', JStr ''qwen/qwen3-next-80b-a3b-thinking'')]"

text \<open>The mapping table of the Express deployment (\<^verbatim>\<open>server.js\<close>).\<close>

definition MODEL_MAPPING_server :: js where
  "MODEL_MAPPING_server = JObj
     [(''3.2 deepseek'', JStr ''deepseek-ai/deepseek-v3.2''),
      (''deepseek'', JStr ''deepseek-ai/deepseek-v3.2''),
      (''gpt-4'', JStr ''deepseek-ai/deepseek-v3.2''),
      (''gpt-3.5-turbo'', JStr ''nvidia/llama-3.1-nemotron-ultra-253b-v1''),
      (''gpt-4-turbo'', JStr ''moonshotai/kimi-k2-thinking''),
      (''gpt-4o'', JStr ''deepseek-ai/deepseek-v3.1-terminus''),
      (''claude-3-opus'', JStr ''openai/gpt-oss-120b''),
      (''claude-3-sonnet'', JStr ''openai/gpt-oss-20b''),
      (''deepseek-ai/deepseek-v3.1-terminus'', JStr ''qwen/qwen3-next-80b-a3b-thinking'')]"

text \<open>
  The three-tier keyword ladder of the Worker, applied to the lowercased model string
  when the table lookup gives a falsy value.
\<close>

definition fallback_worker :: "runtime \<Rightarrow> string \<Rightarrow> js" where
  "fallback_worker rt model =
     (let modelLower = toLowerCase rt model in
      if str_includes modelLower ''gpt-4'' \<or> str_includes modelLower ''claude-opus''
           \<or> str_includes modelLower ''405b''
      then JStr ''meta/llama-3.1-405b-instruct''
      else if str_includes modelLower ''claude'' \<or> str_includes modelLower ''gemini''
           \<or> str_includes modelLower ''70b''
      then JStr ''meta/llama-3.1-70b-instruct''
      else JStr ''meta/llama-3.1-8b-instruct'')"

definition nimModel_worker :: "runtime \<Rightarrow> string \<Rightarrow> js" where
  "nimModel_worker rt model =
     (let nimModel = get_prop MODEL_MAPPING_worker model in
      if \<not> truthy nimModel then fallback_worker rt model else nimModel)"

text \<open>
  The fallback of the Express server: the caller's string itself, unless its lowercase
  form contains \<^verbatim>\<open>deepseek\<close>.
\<close>

definition fallback_server :: "runtime \<Rightarrow> string \<Rightarrow> js" where
  "fallback_server rt model =
     (if str_includes (toLowerCase rt model) ''deepseek''
      then JStr ''deepseek-ai/deepseek-v3.2'' else JStr model)"

definition nimModel_server :: "runtime \<Rightarrow> string \<Rightarrow> js" where
  "nimModel_server rt model =
     (let nimModel = get_prop MODEL_MAPPING_server model in
      if \<not> truthy nimModel then fallback_server rt model else nimModel)"


section \<open>Request Transcoder\<close>

text \<open>
  \<^verbatim>\<open>o.k = v\<close> and \<^verbatim>\<open>delete o.k\<close>. Assigning to an existing property keeps its place,
  a new property goes last; on a value that is not an object both leave what
  \<^verbatim>\<open>JSON.stringify\<close> prints of it unchanged.
\<close>

fun set_prop :: "js \<Rightarrow> string \<Rightarrow> js \<Rightarrow> js" where
  "set_prop (JObj kvs) k v = JObj (AList.update k v kvs)"
| "set_prop obj k v = obj"

fun delete_prop :: "js \<Rightarrow> string \<Rightarrow> js" where
  "delete_prop (JObj kvs) k = JObj (AList.delete k kvs)"
| "delete_prop obj k = obj"

definition ENABLE_THINKING_MODE :: bool where
  "ENABLE_THINKING_MODE = True"

definition SHOW_REASONING :: bool where
  "SHOW_REASONING = True"

text \<open>
  The upstream request of the Express server, from the fields destructured from the
  request body (\<open>JUndefined\<close> for a field the body does not have).
\<close>

definition nimRequest_server :: "runtime \<Rightarrow> string \<Rightarrow> js \<Rightarrow> js \<Rightarrow> js \<Rightarrow> js \<Rightarrow> js" where
  "nimRequest_server rt model messages temperature max_tokens stream =
     (let nimRequest = JObj
        [(''model'', nimModel_server rt model),
         (''messages'', messages),
         (''temperature'', js_or temperature (JNum (6 / 10))),
         (''max_tokens'', js_or max_tokens (JNum 8192)),
         (''stream'', js_or stream (JBool False))]
      in if ENABLE_THINKING_MODE
         then set_prop nimRequest ''chat_template_kwargs'' (JObj [(''thinking'', JBool True)])
         else nimRequest)"

text \<open>
  The upstream request body of the Worker. The destructuring defaults
  (\<^verbatim>\<open>messages = []\<close>) apply to a field that is \<^verbatim>\<open>undefined\<close>.
\<close>

definition nimRequestBody_worker :: "runtime \<Rightarrow> string \<Rightarrow> js \<Rightarrow> js \<Rightarrow> js \<Rightarrow> js \<Rightarrow> js" where
  "nimRequestBody_worker rt model messages temperature max_tokens stream = JObj
     [(''model'', nimModel_worker rt model),
      (''messages'', if messages = JUndefined then JArr [] else messages),
      (''temperature'', if temperature \<noteq> JUndefined then temperature else JNum (6 / 10)),
      (''max_tokens'', if max_tokens \<noteq> JUndefined then max_tokens else JNum 9024),
      (''extra_body'',
         if ENABLE_THINKING_MODE
         then JObj [(''chat_template_kwargs'', JObj [(''thinking'', JBool True)])]
         else JUndefined),
      (''stream'', JBool (truthy stream))]"

text \<open>
  The \<^verbatim>\<open>/api/chat\<close> handler copies the caller's array before it prepends the system
  message. Arrays are mutable and passed by reference, so the store is explicit: an
  address is an index into the list of allocated arrays, and a new array is allocated at
  the end. \<open>spread_copy\<close> and \<open>api_chat\<close> are the handler on a body whose
  \<^verbatim>\<open>messages\<close> is an array, given by its address (no run has an address outside the
  store; the model answers TypeError there). \<open>spread_value\<close> and \<open>api_chat_other\<close>
  further down are the handler on a body whose \<^verbatim>\<open>messages\<close> is anything else.
\<close>

type_synonym heap = "js list list"

definition spread_copy :: "heap \<Rightarrow> nat \<Rightarrow> error + heap \<times> nat" where
  "spread_copy h a = (if a < length h then Inr (h @ [h ! a], length h) else Inl TypeError)"

definition unshift :: "heap \<Rightarrow> nat \<Rightarrow> js \<Rightarrow> heap" where
  "unshift h a v = (if a < length h then h[a := v # h ! a] else h)"

text \<open>
  The handler up to its call of \<^verbatim>\<open>nimRequest(nimMessages)\<close>: the store after it and
  the address of \<^verbatim>\<open>nimMessages\<close>.
\<close>

definition api_chat :: "heap \<Rightarrow> nat \<Rightarrow> error + heap \<times> nat" where
  "api_chat h incomingMessages =
     (case spread_copy h incomingMessages of
        Inl e \<Rightarrow> Inl e
      | Inr (h1, nimMessages) \<Rightarrow>
          if ENABLE_THINKING_MODE
          then Inr (unshift h1 nimMessages
                      (JObj [(''content'', JStr ''detailed thinking on''), (''role'', JStr ''system'')]),
                    nimMessages)
          else Inr (h1, nimMessages))"

text \<open>
  \<^verbatim>\<open>[...v]\<close> on a value that is no array of the store: a string is iterable and gives
  the array of its characters, every other value of a JSON body is not iterable and the
  spread throws a TypeError. (An array held as a value is copied element by element.)
\<close>

definition is_continuation :: "char \<Rightarrow> bool" where
  "is_continuation c = (0x80 \<le> (of_char c :: nat) \<and> (of_char c :: nat) \<le> 0xBF)"

fun utf8_chars :: "string \<Rightarrow> string list" where
  "utf8_chars [] = []"
| "utf8_chars (c # cs) =
     (case utf8_chars cs of
        [] \<Rightarrow> [[c]]
      | x # xs \<Rightarrow>
          if (case x of [] \<Rightarrow> False | y # ys \<Rightarrow> is_continuation y)
          then (c # x) # xs else [c] # x # xs)"

definition spread_value :: "heap \<Rightarrow> js \<Rightarrow> error + heap \<times> nat" where
  "spread_value h v =
     (case v of
        JStr s \<Rightarrow> Inr (h @ [map JStr (utf8_chars s)], length h)
      | JArr xs \<Rightarrow> Inr (h @ [xs], length h)
      | _ \<Rightarrow> Inl TypeError)"

definition api_chat_other :: "heap \<Rightarrow> js \<Rightarrow> error + heap \<times> nat" where
  "api_chat_other h incomingMessages =
     (case spread_value h incomingMessages of
        Inl e \<Rightarrow> Inl e
      | Inr (h1, nimMessages) \<Rightarrow>
          if ENABLE_THINKING_MODE
          then Inr (unshift h1 nimMessages
                      (JObj [(''content'', JStr ''detailed thinking on''), (''role'', JStr ''system'')]),
                    nimMessages)
          else Inr (h1, nimMessages))"


section \<open>Response Transcoder (non-streaming)\<close>

text \<open>
  \<^verbatim>\<open>v == null\<close>, \<^verbatim>\<open>v?.k\<close> and \<^verbatim>\<open>a ?? b\<close>. Reading a property of
  \<^verbatim>\<open>undefined\<close> or \<^verbatim>\<open>null\<close> without \<^verbatim>\<open>?.\<close> throws a TypeError.
\<close>

definition nullish :: "js \<Rightarrow> bool" where
  "nullish v = (v = JUndefined \<or> v = JNull)"

definition opt_chain :: "js \<Rightarrow> string \<Rightarrow> js" where
  "opt_chain v k = (if nullish v then JUndefined else get_prop v k)"

definition nullish_or :: "js \<Rightarrow> js \<Rightarrow> js" where
  "nullish_or a b = (if nullish a then b else a)"

fun map_throwing :: "('a \<Rightarrow> error + 'b) \<Rightarrow> 'a list \<Rightarrow> error + 'b list" where
  "map_throwing f [] = Inr []"
| "map_throwing f (x # xs) =
     (case f x of
        Inl e \<Rightarrow> Inl e
      | Inr y \<Rightarrow> (case map_throwing f xs of Inl e \<Rightarrow> Inl e | Inr ys \<Rightarrow> Inr (y # ys)))"

text \<open>
  What the handler answers: the transformed response, the upstream's raw text (Worker
  only, when the upstream body is no JSON), or the error reply of the enclosing
  \<^verbatim>\<open>catch\<close>.
\<close>

datatype reply = OutboundResponse js | RawText | Failure error

definition zero_usage :: js where
  "zero_usage = JObj
     [(''prompt_tokens'', JNum 0), (''completion_tokens'', JNum 0), (''total_tokens'', JNum 0)]"

text \<open>
  \<^verbatim>\<open>'<think>\n' + reasoning + '\n</think>\n\n' + content\<close>, which the Worker writes
  as a template literal: the operands are converted from left to right.
\<close>

definition think_block :: "runtime \<Rightarrow> js \<Rightarrow> js \<Rightarrow> error + js" where
  "think_block rt reasoning content =
     (case plus_checked rt (JStr ''<think>\<newline>'') reasoning of
        Inl e \<Rightarrow> Inl e
      | Inr opened \<Rightarrow>
          (case plus_checked rt opened (JStr ''\<newline></think>\<newline>\<newline>'') of
             Inl e \<Rightarrow> Inl e
           | Inr wrapped \<Rightarrow> plus_checked rt wrapped content))"

text \<open>The callback of \<^verbatim>\<open>choices.map\<close> in the Express server.\<close>

definition choice_server :: "runtime \<Rightarrow> js \<Rightarrow> error + js" where
  "choice_server rt choice =
     (if nullish choice then Inl TypeError
      else
        let message = get_prop choice ''message'';
            content = js_or (opt_chain message ''content'') (JStr [])
        in case (if SHOW_REASONING \<and> truthy (opt_chain message ''reasoning_content'')
                 then think_block rt (get_prop message ''reasoning_content'') content
                 else Inr content) of
             Inl e \<Rightarrow> Inl e
           | Inr fullContent \<Rightarrow>
               if nullish message then Inl TypeError
               else Inr (JObj
                 [(''index'', get_prop choice ''index''),
                  (''message'', JObj [(''role'', get_prop message ''role''),
                                      (''content'', fullContent)]),
                  (''finish_reason'', get_prop choice ''finish_reason'')]))"

text \<open>
  The non-streaming branch of the Express server: \<open>now\<close> is \<^verbatim>\<open>Date.now()\<close>,
  \<open>data\<close> is \<^verbatim>\<open>response.data\<close>.
\<close>

definition openaiResponse_server :: "runtime \<Rightarrow> nat \<Rightarrow> string \<Rightarrow> js \<Rightarrow> reply" where
  "openaiResponse_server rt now model data =
     (if nullish data then Failure TypeError
      else case get_prop data ''choices'' of
        JArr choices \<Rightarrow>
          (case map_throwing (choice_server rt) choices of
             Inl e \<Rightarrow> Failure e
           | Inr choices' \<Rightarrow> OutboundResponse (JObj
               [(''id'', js_plus rt (JStr ''chatcmpl-'') (JNum (of_nat now))),
                (''object'', JStr ''chat.completion''),
                (''created'', JNum (of_nat (now div 1000))),
                (''model'', JStr model),
                (''choices'', JArr choices'),
                (''usage'', js_or (get_prop data ''usage'') zero_usage)]))
      | _ \<Rightarrow> Failure TypeError)"

text \<open>The callback of \<^verbatim>\<open>choices.map\<close> in the Worker.\<close>

definition choice_worker :: "runtime \<Rightarrow> js \<Rightarrow> error + js" where
  "choice_worker rt choice =
     (if nullish choice then Inl TypeError
      else
        let message = get_prop choice ''message'';
            content = nullish_or (nullish_or (opt_chain message ''content'')
                                    (get_prop choice ''content'')) (JStr []);
            reasoning = nullish_or (opt_chain message ''reasoning_content'')
                          (get_prop choice ''reasoning_content'')
        in case (if SHOW_REASONING \<and> truthy reasoning
                 then think_block rt reasoning content else Inr content) of
             Inl e \<Rightarrow> Inl e
           | Inr full \<Rightarrow> Inr (JObj
               [(''index'', nullish_or (get_prop choice ''index'') (JNum 0)),
                (''message'', JObj
                   [(''role'', nullish_or (opt_chain message ''role'') (JStr ''assistant'')),
                    (''content'', full)]),
                (''finish_reason'', nullish_or (get_prop choice ''finish_reason'') JNull)]))"

text \<open>
  The non-streaming branch of the Worker: \<open>nimJson\<close> is the parsed upstream body, or
  \<^verbatim>\<open>null\<close> when it does not parse.
\<close>

definition openaiResponse_worker :: "runtime \<Rightarrow> nat \<Rightarrow> string \<Rightarrow> js \<Rightarrow> reply" where
  "openaiResponse_worker rt now model nimJson =
     (if \<not> truthy nimJson then RawText
      else
        case (case get_prop nimJson ''choices'' of
                JArr choices \<Rightarrow> map_throwing (choice_worker rt) choices
              | _ \<Rightarrow> Inr []) of
          Inl e \<Rightarrow> Failure e
        | Inr choices' \<Rightarrow> OutboundResponse (JObj
            [(''id'', js_plus rt (JStr ''chatcmpl-'') (JNum (of_nat now))),
             (''object'', JStr ''chat.completion''),
             (''created'', JNum (of_nat (now div 1000))),
             (''model'', js_or (js_or (JStr model) (get_prop nimJson ''model''))
                           (nimModel_worker rt model)),
             (''choices'', JArr choices'),
             (''usage'', nullish_or (get_prop nimJson ''usage'') zero_usage)]))"


section \<open>Stream Reassembler\<close>

subsection \<open>Decoding a chunk\<close>

text \<open>
  The upstream body arrives as \<^verbatim>\<open>Buffer\<close> chunks and the handler appends
  \<^verbatim>\<open>chunk.toString()\<close>, which decodes the bytes of that one chunk as UTF-8: a
  well-formed sequence gives its character, and every maximal ill-formed or truncated
  part gives U+FFFD. With strings kept in UTF-8, decoding copies the well-formed
  sequences and writes the three bytes of U+FFFD for each ill-formed part.
\<close>

definition REPLACEMENT :: string where
  "REPLACEMENT = [CHR 0xEF, CHR 0xBF, CHR 0xBD]"

text \<open>
  For a lead byte: how many continuation bytes follow, and the range of the first of
  them (the others are in \<open>0x80..0xBF\<close>).
\<close>

definition lead :: "nat \<Rightarrow> (nat \<times> nat \<times> nat) option" where
  "lead b =
     (if 0xC2 \<le> b \<and> b \<le> 0xDF then Some (1, 0x80, 0xBF)
      else if b = 0xE0 then Some (2, 0xA0, 0xBF)
      else if b = 0xED then Some (2, 0x80, 0x9F)
      else if 0xE1 \<le> b \<and> b \<le> 0xEF then Some (2, 0x80, 0xBF)
      else if b = 0xF0 then Some (3, 0x90, 0xBF)
      else if b = 0xF4 then Some (3, 0x80, 0x8F)
      else if 0xF1 \<le> b \<and> b \<le> 0xF3 then Some (3, 0x80, 0xBF)
      else None)"

text \<open>
  Reads \<open>n\<close> continuation bytes: whether all were there, the bytes read, and the input
  from the first byte that was not accepted.
\<close>

fun continuation :: "nat \<Rightarrow> nat \<Rightarrow> nat \<Rightarrow> string \<Rightarrow> bool \<times> string \<times> string" where
  "continuation 0 lo hi bs = (True, [], bs)"
| "continuation (Suc n) lo hi [] = (False, [], [])"
| "continuation (Suc n) lo hi (b # bs) =
     (if lo \<le> of_char b \<and> of_char b \<le> hi
      then (case continuation n 0x80 0xBF bs of (ok, cs, rest) \<Rightarrow> (ok, b # cs, rest))
      else (False, [], b # bs))"

lemma continuation_length:
  "continuation n lo hi bs = (ok, cs, rest) \<Longrightarrow> length rest \<le> length bs"
proof (induction n lo hi bs arbitrary: ok cs rest rule: continuation.induct)
  case (3 n lo hi b bs)
  then show ?case
    by (fastforce split: if_splits prod.splits)
qed auto

lemma continuation_shorter:
  "(ok, w) = continuation n lo hi bs \<Longrightarrow> (cs, rest) = w \<Longrightarrow> length rest < Suc (length bs)"
  using continuation_length [of n lo hi bs ok cs rest] by auto

function Buffer_toString :: "string \<Rightarrow> string" where
  "Buffer_toString [] = []"
| "Buffer_toString (b # bs) =
     (if (of_char b :: nat) < 0x80 then b # Buffer_toString bs
      else case lead (of_char b) of
        None \<Rightarrow> REPLACEMENT @ Buffer_toString bs
      | Some (n, lo, hi) \<Rightarrow>
          (case continuation n lo hi bs of
             (ok, cs, rest) \<Rightarrow>
               if ok then (b # cs) @ Buffer_toString rest
               else REPLACEMENT @ Buffer_toString rest))"
  by pat_completeness auto
termination
  by (relation "measure length") (auto elim: continuation_shorter)

subsection \<open>Lines\<close>

text \<open>\<^verbatim>\<open>s.split('\n')\<close>: the segments between newlines, one more than there are newlines.\<close>

fun split_newline :: "string \<Rightarrow> string list" where
  "split_newline [] = [[]]"
| "split_newline (c # cs) =
     (if c = CHR 0x0A then [] # split_newline cs
      else case split_newline cs of
        [] \<Rightarrow> [[c]]
      | l # ls \<Rightarrow> (c # l) # ls)"

subsection \<open>One event\<close>

text \<open>
  \<^verbatim>\<open>data.choices?.[0]?.delta\<close>: only the first property read is unguarded and throws
  when \<open>data\<close> is \<^verbatim>\<open>null\<close>.
\<close>

definition first_delta :: "js \<Rightarrow> error + js" where
  "first_delta data =
     (if nullish data then Inl TypeError
      else
        let choices = get_prop data ''choices'';
            choice = (if nullish choices then JUndefined else index0 choices)
        in Inr (opt_chain choice ''delta''))"

text \<open>
  The handler changes the delta object in place; \<open>data\<close> is a tree, so the change shows
  in \<open>data\<close> at \<^verbatim>\<open>choices[0].delta\<close> and nowhere else.
\<close>

fun set_index0 :: "js \<Rightarrow> js \<Rightarrow> js" where
  "set_index0 (JArr (x # xs)) v = JArr (v # xs)"
| "set_index0 (JObj kvs) v = set_prop (JObj kvs) ''0'' v"
| "set_index0 arr v = arr"

definition update_delta :: "(js \<Rightarrow> js) \<Rightarrow> js \<Rightarrow> js" where
  "update_delta f data =
     (let choices = get_prop data ''choices'';
          choice = index0 choices;
          delta = get_prop choice ''delta''
      in set_prop data ''choices'' (set_index0 choices (set_prop choice ''delta'' (f delta))))"

text \<open>
  The merge of one delta when reasoning is shown: the combined content and the new value
  of \<^verbatim>\<open>reasoningStarted\<close>, or the exception of a \<^verbatim>\<open>+\<close> together with the value
  \<^verbatim>\<open>reasoningStarted\<close> has when it is thrown (each assignment to it follows the
  \<^verbatim>\<open>+\<close> of its branch).
\<close>

definition combine ::
  "runtime \<Rightarrow> bool \<Rightarrow> js \<Rightarrow> js \<Rightarrow> error \<times> bool + js \<times> bool" where
  "combine rt reasoningStarted reasoning content =
     (case (if truthy reasoning \<and> \<not> reasoningStarted
            then (case plus_checked rt (JStr ''<think>\<newline>'') reasoning of
                    Inl e \<Rightarrow> Inl (e, reasoningStarted)
                  | Inr opened \<Rightarrow> Inr (opened, True))
            else if truthy reasoning then Inr (reasoning, reasoningStarted)
            else Inr (JStr [], reasoningStarted)) of
        Inl thrown \<Rightarrow> Inl thrown
      | Inr (combinedContent, started) \<Rightarrow>
          if truthy content \<and> started then
            (case plus_checked rt (JStr ''</think>\<newline>\<newline>'') content of
               Inl e \<Rightarrow> Inl (e, started)
             | Inr closing \<Rightarrow>
                 (case plus_checked rt combinedContent closing of
                    Inl e \<Rightarrow> Inl (e, started)
                  | Inr c \<Rightarrow> Inr (c, False)))
          else if truthy content then
            (case plus_checked rt combinedContent content of
               Inl e \<Rightarrow> Inl (e, started)
             | Inr c \<Rightarrow> Inr (c, started))
          else Inr (combinedContent, started))"

text \<open>
  The body of the \<^verbatim>\<open>try\<close> block after a successful parse: the event to write
  and the new \<^verbatim>\<open>reasoningStarted\<close>, or the exception thrown and the value of
  \<^verbatim>\<open>reasoningStarted\<close> at that point.
\<close>

definition transform_event ::
  "runtime \<Rightarrow> bool \<Rightarrow> js \<Rightarrow> error \<times> bool + js \<times> bool" where
  "transform_event rt reasoningStarted data =
     (case first_delta data of
        Inl e \<Rightarrow> Inl (e, reasoningStarted)
      | Inr delta \<Rightarrow>
          if truthy delta then
            let reasoning = get_prop delta ''reasoning_content'';
                content = get_prop delta ''content''
            in if SHOW_REASONING then
                 (case combine rt reasoningStarted reasoning content of
                    Inl thrown \<Rightarrow> Inl thrown
                  | Inr (combinedContent, started) \<Rightarrow>
                      if truthy combinedContent
                      then Inr (update_delta
                                  (\<lambda>d. delete_prop (set_prop d ''content'' combinedContent)
                                         ''reasoning_content'') data,
                                started)
                      else Inr (data, started))
               else Inr (update_delta
                           (\<lambda>d. delete_prop
                                  (set_prop d ''content'' (if truthy content then content else JStr []))
                                  ''reasoning_content'') data,
                         reasoningStarted)
          else Inr (data, reasoningStarted))"

subsection \<open>One line, one chunk, one stream\<close>

text \<open>
  A call of \<^verbatim>\<open>res.write\<close>: either a raw line followed by one newline, or a
  re-serialized event.
\<close>

datatype written = WriteLine string | WriteEvent js

fun wire :: "runtime \<Rightarrow> written \<Rightarrow> string" where
  "wire rt (WriteLine line) = line @ ''\<newline>''"
| "wire rt (WriteEvent data) = ''data: '' @ JSON_stringify rt data @ ''\<newline>\<newline>''"

text \<open>The callback of \<^verbatim>\<open>lines.forEach\<close>.\<close>

definition process_line :: "runtime \<Rightarrow> bool \<Rightarrow> string \<Rightarrow> bool \<times> written list" where
  "process_line rt reasoningStarted line =
     (if startsWith line ''data: '' then
        if str_includes line ''[DONE]'' then (reasoningStarted, [WriteLine line])
        else
          case JSON_parse rt (drop 6 line) of
            None \<Rightarrow> (reasoningStarted, [WriteLine line])
          | Some data \<Rightarrow>
              (case transform_event rt reasoningStarted data of
                 Inl (e, started) \<Rightarrow> (started, [WriteLine line])
               | Inr (data', started) \<Rightarrow> (started, [WriteEvent data']))
      else (reasoningStarted, []))"

fun process_lines :: "runtime \<Rightarrow> bool \<Rightarrow> string list \<Rightarrow> bool \<times> written list" where
  "process_lines rt reasoningStarted [] = (reasoningStarted, [])"
| "process_lines rt reasoningStarted (line # lines) =
     (case process_line rt reasoningStarted line of
        (started, out) \<Rightarrow>
          (case process_lines rt started lines of
             (started', out') \<Rightarrow> (started', out @ out')))"

record stream_state =
  buffer :: string
  reasoningStarted :: bool

definition initial_state :: stream_state where
  "initial_state = \<lparr>buffer = [], reasoningStarted = False\<rparr>"

text \<open>The \<^verbatim>\<open>data\<close> handler: the state after the chunk and what it wrote.\<close>

definition on_data :: "runtime \<Rightarrow> stream_state \<Rightarrow> string \<Rightarrow> stream_state \<times> written list" where
  "on_data rt st chunk =
     (let lines = split_newline (buffer st @ Buffer_toString chunk)
      in case process_lines rt (reasoningStarted st) (butlast lines) of
           (started, out) \<Rightarrow> (\<lparr>buffer = last lines, reasoningStarted = started\<rparr>, out))"

text \<open>The \<^verbatim>\<open>end\<close> and \<^verbatim>\<open>error\<close> handlers call \<^verbatim>\<open>res.end()\<close> and write nothing.\<close>

definition on_end :: "stream_state \<Rightarrow> written list" where
  "on_end st = []"

text \<open>A whole stream: the chunks in order, then the end of the upstream body.\<close>

fun feed :: "runtime \<Rightarrow> stream_state \<Rightarrow> string list \<Rightarrow> stream_state \<times> written list" where
  "feed rt st [] = (st, [])"
| "feed rt st (chunk # chunks) =
     (case on_data rt st chunk of
        (st1, out) \<Rightarrow> (case feed rt st1 chunks of (st2, out') \<Rightarrow> (st2, out @ out')))"

definition stream_response :: "runtime \<Rightarrow> string list \<Rightarrow> written list" where
  "stream_response rt chunks =
     (case feed rt initial_state chunks of (st, out) \<Rightarrow> out @ on_end st)"


section \<open>Payloads used in the examples\<close>

text \<open>An event whose first choice carries the given delta.\<close>

definition delta_event :: "js \<Rightarrow> js" where
  "delta_event delta = JObj [(''choices'', JArr [JObj [(''delta'', delta)]])]"

text \<open>The two bytes of U+00E9 in UTF-8.\<close>

definition e_acute :: string where
  "e_acute = [CHR 0xC3, CHR 0xA9]"

text \<open>
  \<^verbatim>\<open>JSON.parse\<close> on the payloads that occur in the examples below, each with the value
  it parses to; every other payload of the examples is no JSON text.
\<close>

definition example_payloads :: "(string \<times> js) list" where
  \<open>example_payloads =
     [(''{}'', JObj []),
      (''{"choices":[{"delta":{"reasoning_content":"a"}}]}'',
         delta_event (JObj [(''reasoning_content'', JStr ''a'')])),
      (''{"choices":[{"delta":{"reasoning_content":"b"}}]}'',
         delta_event (JObj [(''reasoning_content'', JStr ''b'')])),
      (''{"choices":[{"delta":{"content":"c"}}]}'',
         delta_event (JObj [(''content'', JStr ''c'')])),
      (''{"choices":[{"delta":{"content":"'' @ e_acute @ ''"}}]}'',
         delta_event (JObj [(''content'', JStr e_acute)])),
      (''{"choices":[{"delta":{"content":"'' @ REPLACEMENT @ REPLACEMENT @ ''"}}]}'',
         delta_event (JObj [(''content'', JStr (REPLACEMENT @ REPLACEMENT))]))]\<close>

text \<open>
  A runtime for the examples: the parser is the table, the serializer its inverse (no
  example serializes a value that is not in the table), and lowercasing is that of ASCII
  letters. The examples apply \<^verbatim>\<open>+\<close> to strings only, apart from the \<^verbatim>\<open>id\<close>
  of a response body, which is left as the sum it is.
\<close>

definition ascii_lower :: "char \<Rightarrow> char" where
  "ascii_lower c =
     (if 0x41 \<le> (of_char c :: nat) \<and> (of_char c :: nat) \<le> 0x5A
      then char_of (of_char c + (0x20 :: nat)) else c)"

definition example_rt :: runtime where
  "example_rt =
     \<lparr>JSON_parse = map_of example_payloads,
      JSON_stringify =
        (\<lambda>d. case find (\<lambda>p. snd p = d) example_payloads of Some p \<Rightarrow> fst p | None \<Rightarrow> []),
      toLowerCase = map ascii_lower,
      plus_coerce = (\<lambda>a b. JUndefined)\<rparr>"


text \<open>A field of the response body, \<^verbatim>\<open>undefined\<close> when the reply is no response body.\<close>

definition reply_field :: "reply \<Rightarrow> string \<Rightarrow> js" where
  "reply_field r k = (case r of OutboundResponse body \<Rightarrow> get_prop body k | _ \<Rightarrow> JUndefined)"

text \<open>
  The response body built at \<^verbatim>\<open>Date.now() = 1700000000000\<close> from an upstream answer
  without choices and without usage, with \<open>m\<close> in its \<^verbatim>\<open>model\<close> field.
\<close>

definition example_response :: "js \<Rightarrow> js" where
  "example_response m = JObj
     [(''id'', js_plus example_rt (JStr ''chatcmpl-'') (JNum 1700000000000)),
      (''object'', JStr ''chat.completion''),
      (''created'', JNum 1700000000),
      (''model'', m),
      (''choices'', JArr []),
      (''usage'', zero_usage)]"


section \<open>Properties of the Model Name Resolver\<close>

lemma get_prop_own:
  "map_of kvs k = Some v \<Longrightarrow> get_prop (JObj kvs) k = v"
  by simp

lemma get_prop_absent:
  "map_of kvs k = None \<Longrightarrow> k \<notin> set Object_prototype \<Longrightarrow> get_prop (JObj kvs) k = JUndefined"
  by simp

text \<open>A key of the table resolves to its configured value, in both deployments.\<close>

lemma nimModel_worker_mapped:
  assumes "MODEL_MAPPING_worker = JObj kvs" and "map_of kvs model = Some v"
  shows "nimModel_worker rt model = v"
  using assms
  by (auto simp: nimModel_worker_def MODEL_MAPPING_worker_def Let_def split: if_splits)

lemma nimModel_server_mapped:
  assumes "MODEL_MAPPING_server = JObj kvs" and "map_of kvs model = Some v"
  shows "nimModel_server rt model = v"
  using assms
  by (auto simp: nimModel_server_def MODEL_MAPPING_server_def Let_def split: if_splits)

text \<open>
  A string that is neither a key of the table nor a name inherited from
  \<^verbatim>\<open>Object.prototype\<close> goes through the fallback rules.
\<close>

lemma nimModel_worker_fallback:
  assumes "MODEL_MAPPING_worker = JObj kvs" and "map_of kvs model = None"
    and "model \<notin> set Object_prototype"
  shows "nimModel_worker rt model = fallback_worker rt model"
  unfolding nimModel_worker_def assms(1) using assms(2,3) by (simp add: Let_def)

lemma nimModel_server_fallback:
  assumes "MODEL_MAPPING_server = JObj kvs" and "map_of kvs model = None"
    and "model \<notin> set Object_prototype"
  shows "nimModel_server rt model = fallback_server rt model"
  unfolding nimModel_server_def assms(1) using assms(2,3) by (simp add: Let_def)

text \<open>
  C3. The specification has model resolution return the configured value for a key of
  the table and a value of the fallback rules for every other string. The table is a plain object
  read with \<^verbatim>\<open>MODEL_MAPPING[model]\<close>, so a model string that names a property
  inherited from \<^verbatim>\<open>Object.prototype\<close> is found although it is no key of the table:
  for the caller's string \<^verbatim>\<open>constructor\<close> the lookup gives the inherited function,
  which is truthy, the fallback is skipped, and the resolved model is that function
  rather than the fallback's identifier, in both deployments.
\<close>

theorem nimModel_inherited_property:
  "nimModel_worker rt ''constructor'' = JBuiltin ''constructor''
   \<and> fallback_worker rt ''constructor'' \<noteq> nimModel_worker rt ''constructor''
   \<and> nimModel_server rt ''constructor'' = JBuiltin ''constructor''
   \<and> fallback_server rt ''constructor'' \<noteq> nimModel_server rt ''constructor''"
  by (simp add: nimModel_worker_def nimModel_server_def MODEL_MAPPING_worker_def
      MODEL_MAPPING_server_def Object_prototype_def fallback_worker_def fallback_server_def
      Let_def)


section \<open>Properties of the Request Transcoder\<close>

text \<open>What each deployment sends as temperature and as token limit.\<close>

lemma nimRequest_server_temperature:
  "get_prop (nimRequest_server rt model messages temperature max_tokens stream) ''temperature''
     = (if truthy temperature then temperature else JNum (6 / 10))"
  by (simp add: nimRequest_server_def ENABLE_THINKING_MODE_def Let_def js_or_def)

lemma nimRequest_server_max_tokens:
  "get_prop (nimRequest_server rt model messages temperature max_tokens stream) ''max_tokens''
     = (if truthy max_tokens then max_tokens else JNum 8192)"
  by (simp add: nimRequest_server_def ENABLE_THINKING_MODE_def Let_def js_or_def)

lemma nimRequestBody_worker_temperature:
  "get_prop (nimRequestBody_worker rt model messages temperature max_tokens stream) ''temperature''
     = (if temperature = JUndefined then JNum (6 / 10) else temperature)"
  by (simp add: nimRequestBody_worker_def)

lemma nimRequestBody_worker_max_tokens:
  "get_prop (nimRequestBody_worker rt model messages temperature max_tokens stream) ''max_tokens''
     = (if max_tokens = JUndefined then JNum 9024 else max_tokens)"
  by (simp add: nimRequestBody_worker_def)

text \<open>
  C4. The specification has the defaults apply exactly when the field is absent, and a
  caller's value, the number 0 included, pass through unchanged. The Worker does that
  (\<open>nimRequestBody_worker_temperature\<close>, \<open>nimRequestBody_worker_max_tokens\<close>). The
  Express server writes \<^verbatim>\<open>temperature || 0.6\<close> and \<^verbatim>\<open>max_tokens || 8192\<close>, which
  replace every falsy value: a request with temperature 0 and max_tokens 0 is sent
  upstream with temperature 0.6 and max_tokens 8192.
\<close>

theorem nimRequest_server_zero_defaulted:
  "get_prop (nimRequest_server rt model messages (JNum 0) (JNum 0) stream) ''temperature''
     = JNum (6 / 10)
   \<and> get_prop (nimRequest_server rt model messages (JNum 0) (JNum 0) stream) ''temperature''
     \<noteq> JNum 0
   \<and> get_prop (nimRequest_server rt model messages (JNum 0) (JNum 0) stream) ''max_tokens''
     = JNum 8192
   \<and> get_prop (nimRequest_server rt model messages (JNum 0) (JNum 0) stream) ''max_tokens''
     \<noteq> JNum 0"
  by (simp add: nimRequest_server_def ENABLE_THINKING_MODE_def Let_def js_or_def)

text \<open>
  C9. The transcoder leaves the caller's messages unchanged: the system message of
  thinking mode is prepended to a fresh copy. For every store and every array
  \<open>incomingMessages\<close> of it, the handler allocates a new array \<open>nimMessages\<close>, different
  from \<open>incomingMessages\<close>, that holds the system message followed by the caller's
  messages, and every array of the store before the call, the caller's among them, has
  the same length and elements after it.
\<close>

theorem api_chat_keeps_caller_messages:
  assumes "incomingMessages < length h"
  shows "\<exists>h' nimMessages.
           api_chat h incomingMessages = Inr (h', nimMessages)
           \<and> nimMessages \<noteq> incomingMessages
           \<and> h' ! incomingMessages = h ! incomingMessages
           \<and> take (length h) h' = h
           \<and> h' ! nimMessages =
               JObj [(''content'', JStr ''detailed thinking on''), (''role'', JStr ''system'')]
                 # h ! incomingMessages"
  using assms
  by (simp add: api_chat_def spread_copy_def unshift_def ENABLE_THINKING_MODE_def nth_append)

text \<open>
  A body whose \<^verbatim>\<open>messages\<close> is the string \<^verbatim>\<open>ab\<close>: the upstream is asked with the
  system message and the two characters; a number is not iterable.
\<close>

lemma api_chat_other_string:
  "api_chat_other [] (JStr ''ab'')
     = Inr ([[JObj [(''content'', JStr ''detailed thinking on''), (''role'', JStr ''system'')],
              JStr ''a'', JStr ''b'']], 0)
   \<and> api_chat_other [] (JNum 1) = Inl TypeError"
  by (simp add: api_chat_other_def spread_value_def unshift_def ENABLE_THINKING_MODE_def
      is_continuation_def)

text \<open>The store holds one array with one user message.\<close>

theorem api_chat_keeps_caller_messages_witness:
  "(0::nat) < length [[JObj [(''role'', JStr ''user''), (''content'', JStr ''hi'')]]]
   \<and> api_chat [[JObj [(''role'', JStr ''user''), (''content'', JStr ''hi'')]]] 0
     = Inr ([[JObj [(''role'', JStr ''user''), (''content'', JStr ''hi'')]],
             [JObj [(''content'', JStr ''detailed thinking on''), (''role'', JStr ''system'')],
              JObj [(''role'', JStr ''user''), (''content'', JStr ''hi'')]]], 1)"
  using api_chat_keeps_caller_messages
    [of 0 "[[JObj [(''role'', JStr ''user''), (''content'', JStr ''hi'')]]]"]
  by (simp add: api_chat_def spread_copy_def unshift_def ENABLE_THINKING_MODE_def)


section \<open>Properties of the Response Transcoder\<close>

lemma openaiResponse_server_model:
  assumes "openaiResponse_server rt now model data = OutboundResponse body"
  shows "get_prop body ''model'' = JStr model"
proof -
  from assms obtain i c ch u where
    "body = JObj [(''id'', i), (''object'', JStr ''chat.completion''), (''created'', c),
                  (''model'', JStr model), (''choices'', ch), (''usage'', u)]"
    by (auto simp: openaiResponse_server_def split: if_splits js.splits sum.splits)
  then show ?thesis by simp
qed

lemma openaiResponse_worker_model:
  assumes "openaiResponse_worker rt now model nimJson = OutboundResponse body"
  shows "get_prop body ''model''
           = js_or (js_or (JStr model) (get_prop nimJson ''model'')) (nimModel_worker rt model)"
proof -
  from assms obtain i c ch u where
    "body = JObj [(''id'', i), (''object'', JStr ''chat.completion''), (''created'', c),
                  (''model'', js_or (js_or (JStr model) (get_prop nimJson ''model''))
                                (nimModel_worker rt model)),
                  (''choices'', ch), (''usage'', u)]"
    by (auto simp: openaiResponse_worker_def split: if_splits sum.splits)
  then show ?thesis by simp
qed

lemma nimModel_worker_empty: "nimModel_worker rt [] = fallback_worker rt []"
  by (simp add: nimModel_worker_def MODEL_MAPPING_worker_def Object_prototype_def)

text \<open>
  C8, as amended. Whenever a response body is built, its \<^verbatim>\<open>model\<close> field is the
  caller's model string in the Express server, for every string, and in the Worker for
  every non-empty string. For the empty string the Worker, which writes
  \<^verbatim>\<open>model || nimJson.model || nimModel\<close>, answers the upstream response's
  \<^verbatim>\<open>model\<close> when that is truthy and the fallback's identifier otherwise.
\<close>

theorem model_field_echo:
  "(openaiResponse_server rt now model data = OutboundResponse body
      \<longrightarrow> get_prop body ''model'' = JStr model)
   \<and> (model \<noteq> [] \<and> openaiResponse_worker rt now model nimJson = OutboundResponse body'
      \<longrightarrow> get_prop body' ''model'' = JStr model)
   \<and> (openaiResponse_worker rt now [] nimJson = OutboundResponse body''
      \<longrightarrow> get_prop body'' ''model''
            = js_or (get_prop nimJson ''model'') (fallback_worker rt []))"
proof (intro conjI impI)
  assume "openaiResponse_server rt now model data = OutboundResponse body"
  then show "get_prop body ''model'' = JStr model" by (rule openaiResponse_server_model)
next
  assume "model \<noteq> [] \<and> openaiResponse_worker rt now model nimJson = OutboundResponse body'"
  then show "get_prop body' ''model'' = JStr model"
    using openaiResponse_worker_model [of rt now model nimJson body'] by (simp add: js_or_def)
next
  assume "openaiResponse_worker rt now [] nimJson = OutboundResponse body''"
  then show "get_prop body'' ''model'' = js_or (get_prop nimJson ''model'') (fallback_worker rt [])"
    using openaiResponse_worker_model [of rt now "[]" nimJson body'']
    by (simp add: js_or_def nimModel_worker_empty)
qed

text \<open>
  Both deployments asked for \<^verbatim>\<open>gpt-4o\<close>, and the Worker asked for the empty string,
  with an upstream answer that names its model.
\<close>

theorem model_field_echo_witness:
  "openaiResponse_server example_rt 1700000000000 ''gpt-4o'' (JObj [(''choices'', JArr [])])
     = OutboundResponse (example_response (JStr ''gpt-4o''))
   \<and> get_prop (example_response (JStr ''gpt-4o'')) ''model'' = JStr ''gpt-4o''
   \<and> ''gpt-4o'' \<noteq> []
   \<and> openaiResponse_worker example_rt 1700000000000 ''gpt-4o''
        (JObj [(''model'', JStr ''deepseek-ai/deepseek-v3.1''), (''choices'', JArr [])])
     = OutboundResponse (example_response (JStr ''gpt-4o''))
   \<and> openaiResponse_worker example_rt 1700000000000 []
        (JObj [(''model'', JStr ''deepseek-ai/deepseek-v3.1''), (''choices'', JArr [])])
     = OutboundResponse (example_response (JStr ''deepseek-ai/deepseek-v3.1''))
   \<and> get_prop (example_response (JStr ''deepseek-ai/deepseek-v3.1'')) ''model''
     = JStr ''deepseek-ai/deepseek-v3.1''"
proof -
  have a: "openaiResponse_server example_rt 1700000000000 ''gpt-4o'' (JObj [(''choices'', JArr [])])
     = OutboundResponse (example_response (JStr ''gpt-4o''))"
    by (simp add: openaiResponse_server_def example_response_def nullish_def js_or_def
        Object_prototype_def)
  have b: "openaiResponse_worker example_rt 1700000000000 ''gpt-4o''
        (JObj [(''model'', JStr ''deepseek-ai/deepseek-v3.1''), (''choices'', JArr [])])
     = OutboundResponse (example_response (JStr ''gpt-4o''))"
    by (simp add: openaiResponse_worker_def example_response_def nullish_def nullish_or_def
        js_or_def Object_prototype_def)
  have c: "openaiResponse_worker example_rt 1700000000000 []
        (JObj [(''model'', JStr ''deepseek-ai/deepseek-v3.1''), (''choices'', JArr [])])
     = OutboundResponse (example_response (JStr ''deepseek-ai/deepseek-v3.1''))"
    by (simp add: openaiResponse_worker_def example_response_def nullish_def nullish_or_def
        js_or_def Object_prototype_def)
  have d: "''gpt-4o'' \<noteq> []" by simp
  note e = model_field_echo [of example_rt 1700000000000 "''gpt-4o''"
      "JObj [(''choices'', JArr [])]" "example_response (JStr ''gpt-4o'')"
      "JObj [(''model'', JStr ''deepseek-ai/deepseek-v3.1''), (''choices'', JArr [])]"
      "example_response (JStr ''gpt-4o'')"
      "example_response (JStr ''deepseek-ai/deepseek-v3.1'')"]
  from e a have 1: "get_prop (example_response (JStr ''gpt-4o'')) ''model'' = JStr ''gpt-4o''"
    by blast
  from e c have "get_prop (example_response (JStr ''deepseek-ai/deepseek-v3.1'')) ''model''
       = js_or (get_prop (JObj [(''model'', JStr ''deepseek-ai/deepseek-v3.1''),
                                (''choices'', JArr [])]) ''model'')
           (fallback_worker example_rt [])"
    by blast
  then have 2: "get_prop (example_response (JStr ''deepseek-ai/deepseek-v3.1'')) ''model''
       = JStr ''deepseek-ai/deepseek-v3.1''"
    by (simp add: js_or_def)
  from a b c d 1 2 show ?thesis by blast
qed

text \<open>
  C8 without the amendment fails for the empty string in the Worker: asked for the model
  \<^verbatim>\<open>""\<close>, the response names the upstream's model when the upstream answer has one,
  and the fallback's model when it has none, not the empty string.
\<close>

theorem worker_empty_model_not_echoed:
  "reply_field
     (openaiResponse_worker example_rt 1700000000000 []
        (JObj [(''model'', JStr ''deepseek-ai/deepseek-v3.1''), (''choices'', JArr [])]))
     ''model'' = JStr ''deepseek-ai/deepseek-v3.1''
   \<and> reply_field
     (openaiResponse_worker example_rt 1700000000000 [] (JObj [(''choices'', JArr [])]))
     ''model'' = JStr ''meta/llama-3.1-8b-instruct''"
  by (simp add: reply_field_def openaiResponse_worker_def js_or_def nimModel_worker_def
      MODEL_MAPPING_worker_def fallback_worker_def example_rt_def Object_prototype_def Let_def)

section \<open>Properties of the Stream Reassembler\<close>

subsection \<open>Lines and chunks\<close>

lemma split_newline_nonempty: "split_newline s \<noteq> []"
  by (induction s) (auto split: list.splits)

text \<open>
  Splitting a text that arrives in two parts: the complete lines of the first part, then
  the lines of what the first part left over followed by the second part.
\<close>

lemma split_newline_append:
  "split_newline (s @ t) =
     butlast (split_newline s) @ split_newline (last (split_newline s) @ t)"
proof (induction s)
  case Nil
  show ?case by simp
next
  case (Cons c cs)
  obtain l ls where cs: "split_newline cs = l # ls"
    using split_newline_nonempty [of cs] by (cases "split_newline cs") auto
  show ?case
  proof (cases "c = CHR 0x0A")
    case True
    then show ?thesis using Cons cs by simp
  next
    case False
    show ?thesis
    proof (cases ls)
      case Nil
      then show ?thesis using False Cons cs by simp
    next
      case (Cons l' ls')
      then show ?thesis using False Cons.IH cs by simp
    qed
  qed
qed

lemma process_lines_append:
  "process_lines rt r (xs @ ys) =
     (case process_lines rt r xs of
        (r1, out1) \<Rightarrow> (case process_lines rt r1 ys of (r2, out2) \<Rightarrow> (r2, out1 @ out2)))"
  by (induction xs arbitrary: r) (auto split: prod.splits)

lemma Buffer_toString_ascii:
  "list_all (\<lambda>c. (of_char c :: nat) < 0x80) a \<Longrightarrow>
   Buffer_toString (a @ bs) = a @ Buffer_toString bs"
  by (induction a) auto

text \<open>
  Where the two chunks decode as the whole does (the cut falls between two characters;
  always so when the first chunk is ASCII), delivering them one after the other writes
  what delivering them at once writes and leaves the same state.
\<close>

lemma feed_split_between_characters:
  assumes "Buffer_toString (a @ b) = Buffer_toString a @ Buffer_toString b"
  shows "feed rt st [a, b] = feed rt st [a @ b]"
proof -
  let ?s = "buffer st @ Buffer_toString a"
  let ?t = "Buffer_toString b"
  have ne: "split_newline (last (split_newline ?s) @ ?t) \<noteq> []"
    by (rule split_newline_nonempty)
  have sp: "split_newline (buffer st @ Buffer_toString (a @ b)) =
      butlast (split_newline ?s) @ split_newline (last (split_newline ?s) @ ?t)"
    using split_newline_append [of ?s ?t] assms by simp
  show ?thesis
    using ne
    by (simp add: on_data_def sp Let_def butlast_append process_lines_append
        split: prod.splits)
qed

lemma feed_split_ascii:
  assumes "list_all (\<lambda>c. (of_char c :: nat) < 0x80) a"
  shows "feed rt st [a, b] = feed rt st [a @ b]"
proof -
  have 1: "Buffer_toString (a @ b) = a @ Buffer_toString b"
    using assms by (rule Buffer_toString_ascii)
  have 2: "Buffer_toString a = a"
    using Buffer_toString_ascii [OF assms, of "[]"] by simp
  from 1 2 have "Buffer_toString (a @ b) = Buffer_toString a @ Buffer_toString b" by simp
  then show ?thesis by (rule feed_split_between_characters)
qed

text \<open>A chunk that begins with a complete line, handled with nothing buffered.\<close>

lemma split_newline_line:
  "CHR 0x0A \<notin> set l \<Longrightarrow> split_newline (l @ CHR 0x0A # t) = l # split_newline t"
  by (induction l) auto

lemma on_data_line:
  assumes "Buffer_toString (l @ CHR 0x0A # rest) = l @ CHR 0x0A # Buffer_toString rest"
    and "CHR 0x0A \<notin> set l"
  shows "on_data rt \<lparr>buffer = [], reasoningStarted = r\<rparr> (l @ CHR 0x0A # rest)
           = (case process_line rt r l of
                (r1, out1) \<Rightarrow>
                  (case on_data rt \<lparr>buffer = [], reasoningStarted = r1\<rparr> rest of
                     (st, out2) \<Rightarrow> (st, out1 @ out2)))"
proof -
  obtain x xs where sp: "split_newline (Buffer_toString rest) = x # xs"
    using split_newline_nonempty [of "Buffer_toString rest"]
    by (cases "split_newline (Buffer_toString rest)") auto
  show ?thesis
    using assms(2)
    by (simp add: on_data_def assms(1) split_newline_line sp Let_def split: prod.splits)
qed

text \<open>A chunk that is one line followed by a blank line.\<close>

lemma on_data_event_chunk:
  assumes "Buffer_toString (l @ ''\<newline>\<newline>'') = l @ ''\<newline>\<newline>''"
    and "CHR 0x0A \<notin> set l"
  shows "on_data rt \<lparr>buffer = [], reasoningStarted = r\<rparr> (l @ ''\<newline>\<newline>'')
           = (case process_line rt r l of
                (r1, out) \<Rightarrow> (\<lparr>buffer = [], reasoningStarted = r1\<rparr>, out))"
proof -
  have blank: "process_line rt r1 [] = (r1, [])" for r1
    by (simp add: process_line_def)
  have "split_newline (l @ ''\<newline>\<newline>'') = [l, [], []]"
    using split_newline_line [OF assms(2), of "''\<newline>''"] by simp
  then show ?thesis
    by (simp add: on_data_def assms(1) blank Let_def split: prod.splits)
qed

subsection \<open>What a line writes\<close>

lemma startsWith_append: "startsWith s p \<Longrightarrow> startsWith (s @ t) p"
  by (induction s p rule: startsWith.induct) auto

lemma startsWith_self_append: "startsWith (p @ t) p"
  by (induction p) auto

text \<open>A data line that contains \<^verbatim>\<open>[DONE]\<close> anywhere is written as it came.\<close>

lemma process_line_done:
  "startsWith line ''data: '' \<Longrightarrow> str_includes line ''[DONE]'' \<Longrightarrow>
   process_line rt started line = (started, [WriteLine line])"
  by (simp add: process_line_def)

lemma process_line_writes_data:
  "list_all (\<lambda>w. startsWith (wire rt w) ''data: '') (snd (process_line rt started line))"
proof (cases "startsWith line ''data: ''")
  case True
  then have "startsWith (line @ ''\<newline>'') ''data: ''" by (rule startsWith_append)
  moreover have "startsWith (''data: '' @ t) ''data: ''" for t by (rule startsWith_self_append)
  ultimately show ?thesis
    using True by (auto simp: process_line_def split: option.splits sum.splits)
next
  case False
  then show ?thesis by (simp add: process_line_def)
qed

lemma process_lines_write_data:
  "list_all (\<lambda>w. startsWith (wire rt w) ''data: '') (snd (process_lines rt started lines))"
proof (induction lines arbitrary: started)
  case Nil
  show ?case by simp
next
  case (Cons line lines)
  obtain s1 o1 where p: "process_line rt started line = (s1, o1)"
    by (cases "process_line rt started line")
  obtain s2 o2 where q: "process_lines rt s1 lines = (s2, o2)"
    by (cases "process_lines rt s1 lines")
  from process_line_writes_data [of rt started line] p
  have "list_all (\<lambda>w. startsWith (wire rt w) ''data: '') o1" by simp
  moreover from Cons [of s1] q have "list_all (\<lambda>w. startsWith (wire rt w) ''data: '') o2" by simp
  ultimately show ?case using p q by simp
qed

subsection \<open>The reasoning block\<close>

text \<open>
  After a delta with visible content no block is open; after a delta without, a block is
  open when one was open before or the delta carries reasoning.
\<close>

lemma combine_state:
  "combine rt started reasoning content = Inr (c, started') \<Longrightarrow>
   started' = (if truthy content then False else (started \<or> truthy reasoning))"
  by (auto simp: combine_def split: if_splits sum.splits)

text \<open>
  A \<^verbatim>\<open>+\<close> that throws on the content, after the reasoning of the same delta has
  opened a block: the \<^verbatim>\<open>catch\<close> finds the block open.
\<close>

lemma combine_throws_after_open:
  "combine rt False (JStr ''a'') (JObj [(''toString'', JNum 1)]) = Inl (TypeError, True)"
  by (simp add: combine_def plus_checked_def)

text \<open>
  The merge of three deltas that carry the reasoning \<^verbatim>\<open>a\<close>, the reasoning \<^verbatim>\<open>b\<close>
  and the content \<^verbatim>\<open>c\<close>, each from the state the one before left.
\<close>

lemma transform_event_toggle:
  "transform_event rt False (delta_event (JObj [(''reasoning_content'', JStr ''a'')]))
     = Inr (delta_event (JObj [(''content'', JStr ''<think>\<newline>a'')]), True)
   \<and> transform_event rt True (delta_event (JObj [(''reasoning_content'', JStr ''b'')]))
     = Inr (delta_event (JObj [(''content'', JStr ''b'')]), True)
   \<and> transform_event rt True (delta_event (JObj [(''content'', JStr ''c'')]))
     = Inr (delta_event (JObj [(''content'', JStr ''</think>\<newline>\<newline>c'')]), False)"
  by (simp add: transform_event_def first_delta_def nullish_def opt_chain_def delta_event_def
      SHOW_REASONING_def combine_def plus_checked_def update_delta_def Let_def
      Object_prototype_def)

text \<open>
  C5. With reasoning shown and a fresh connection (no block open, nothing buffered),
  three events whose deltas are \<^verbatim>\<open>{reasoning_content:"a"}\<close>,
  \<^verbatim>\<open>{reasoning_content:"b"}\<close> and \<^verbatim>\<open>{content:"c"}\<close>, fed to the handler as three
  successive chunks (each a data line and a blank line, the payload whatever text parses
  to the event), are written as three events with the contents \<^verbatim>\<open><think>\na\<close>,
  \<^verbatim>\<open>b\<close> and \<^verbatim>\<open></think>\n\nc\<close>, in that order; the state kept between the chunks has
  a block open after the first and after the second, and none after the third. The same
  holds of the three lines processed within one chunk.
\<close>

theorem reasoning_toggle_sequence:
  assumes "JSON_parse rt pa = Some (delta_event (JObj [(''reasoning_content'', JStr ''a'')]))"
    and "JSON_parse rt pb = Some (delta_event (JObj [(''reasoning_content'', JStr ''b'')]))"
    and "JSON_parse rt pc = Some (delta_event (JObj [(''content'', JStr ''c'')]))"
    and "\<not> str_includes (''data: '' @ pa) ''[DONE]''"
    and "\<not> str_includes (''data: '' @ pb) ''[DONE]''"
    and "\<not> str_includes (''data: '' @ pc) ''[DONE]''"
    and "CHR 0x0A \<notin> set pa" and "CHR 0x0A \<notin> set pb" and "CHR 0x0A \<notin> set pc"
    and "Buffer_toString (''data: '' @ pa @ ''\<newline>\<newline>'') = ''data: '' @ pa @ ''\<newline>\<newline>''"
    and "Buffer_toString (''data: '' @ pb @ ''\<newline>\<newline>'') = ''data: '' @ pb @ ''\<newline>\<newline>''"
    and "Buffer_toString (''data: '' @ pc @ ''\<newline>\<newline>'') = ''data: '' @ pc @ ''\<newline>\<newline>''"
  shows "SHOW_REASONING
    \<and> feed rt initial_state [''data: '' @ pa @ ''\<newline>\<newline>'']
        = (\<lparr>buffer = [], reasoningStarted = True\<rparr>,
           [WriteEvent (delta_event (JObj [(''content'', JStr ''<think>\<newline>a'')]))])
    \<and> feed rt initial_state
          [''data: '' @ pa @ ''\<newline>\<newline>'', ''data: '' @ pb @ ''\<newline>\<newline>'']
        = (\<lparr>buffer = [], reasoningStarted = True\<rparr>,
           [WriteEvent (delta_event (JObj [(''content'', JStr ''<think>\<newline>a'')])),
            WriteEvent (delta_event (JObj [(''content'', JStr ''b'')]))])
    \<and> feed rt initial_state
          [''data: '' @ pa @ ''\<newline>\<newline>'', ''data: '' @ pb @ ''\<newline>\<newline>'',
           ''data: '' @ pc @ ''\<newline>\<newline>'']
        = (\<lparr>buffer = [], reasoningStarted = False\<rparr>,
           [WriteEvent (delta_event (JObj [(''content'', JStr ''<think>\<newline>a'')])),
            WriteEvent (delta_event (JObj [(''content'', JStr ''b'')])),
            WriteEvent (delta_event
              (JObj [(''content'', JStr ''</think>\<newline>\<newline>c'')]))])
    \<and> process_lines rt False [''data: '' @ pa]
        = (True, [WriteEvent (delta_event (JObj [(''content'', JStr ''<think>\<newline>a'')]))])
    \<and> process_lines rt False [''data: '' @ pa, ''data: '' @ pb]
        = (True, [WriteEvent (delta_event (JObj [(''content'', JStr ''<think>\<newline>a'')])),
                  WriteEvent (delta_event (JObj [(''content'', JStr ''b'')]))])
    \<and> process_lines rt False [''data: '' @ pa, ''data: '' @ pb, ''data: '' @ pc]
        = (False, [WriteEvent (delta_event (JObj [(''content'', JStr ''<think>\<newline>a'')])),
                   WriteEvent (delta_event (JObj [(''content'', JStr ''b'')])),
                   WriteEvent (delta_event
                     (JObj [(''content'', JStr ''</think>\<newline>\<newline>c'')]))])"
proof -
  define la lb lc where "la = ''data: '' @ pa" and "lb = ''data: '' @ pb"
    and "lc = ''data: '' @ pc"
  define A B C where "A = ''data: '' @ pa @ ''\<newline>\<newline>''" and "B = ''data: '' @ pb @ ''\<newline>\<newline>''"
    and "C = ''data: '' @ pc @ ''\<newline>\<newline>''"
  have a: "process_line rt False la
      = (True, [WriteEvent (delta_event (JObj [(''content'', JStr ''<think>\<newline>a'')]))])"
    using assms(1,4) transform_event_toggle [of rt] by (simp add: process_line_def la_def)
  have b: "process_line rt True lb
      = (True, [WriteEvent (delta_event (JObj [(''content'', JStr ''b'')]))])"
    using assms(2,5) transform_event_toggle [of rt] by (simp add: process_line_def lb_def)
  have c: "process_line rt True lc
      = (False, [WriteEvent (delta_event
                   (JObj [(''content'', JStr ''</think>\<newline>\<newline>c'')]))])"
    using assms(3,6) transform_event_toggle [of rt] by (simp add: process_line_def lc_def)
  have A: "A = la @ ''\<newline>\<newline>''" and B: "B = lb @ ''\<newline>\<newline>''" and C: "C = lc @ ''\<newline>\<newline>''"
    by (simp_all add: A_def B_def C_def la_def lb_def lc_def)
  have da: "Buffer_toString (la @ ''\<newline>\<newline>'') = la @ ''\<newline>\<newline>''"
    using assms(10) A by (simp only: A_def)
  have db: "Buffer_toString (lb @ ''\<newline>\<newline>'') = lb @ ''\<newline>\<newline>''"
    using assms(11) B by (simp only: B_def)
  have dc: "Buffer_toString (lc @ ''\<newline>\<newline>'') = lc @ ''\<newline>\<newline>''"
    using assms(12) C by (simp only: C_def)
  have na: "CHR 0x0A \<notin> set la" using assms(7) by (simp add: la_def)
  have nb: "CHR 0x0A \<notin> set lb" using assms(8) by (simp add: lb_def)
  have nc: "CHR 0x0A \<notin> set lc" using assms(9) by (simp add: lc_def)
  have ca: "on_data rt \<lparr>buffer = [], reasoningStarted = False\<rparr> A
      = (\<lparr>buffer = [], reasoningStarted = True\<rparr>,
         [WriteEvent (delta_event (JObj [(''content'', JStr ''<think>\<newline>a'')]))])"
    unfolding A on_data_event_chunk [OF da na] a by simp
  have cb: "on_data rt \<lparr>buffer = [], reasoningStarted = True\<rparr> B
      = (\<lparr>buffer = [], reasoningStarted = True\<rparr>,
         [WriteEvent (delta_event (JObj [(''content'', JStr ''b'')]))])"
    unfolding B on_data_event_chunk [OF db nb] b by simp
  have cc: "on_data rt \<lparr>buffer = [], reasoningStarted = True\<rparr> C
      = (\<lparr>buffer = [], reasoningStarted = False\<rparr>,
         [WriteEvent (delta_event
            (JObj [(''content'', JStr ''</think>\<newline>\<newline>c'')]))])"
    unfolding C on_data_event_chunk [OF dc nc] c by simp
  have "SHOW_REASONING
    \<and> feed rt initial_state [A]
        = (\<lparr>buffer = [], reasoningStarted = True\<rparr>,
           [WriteEvent (delta_event (JObj [(''content'', JStr ''<think>\<newline>a'')]))])
    \<and> feed rt initial_state [A, B]
        = (\<lparr>buffer = [], reasoningStarted = True\<rparr>,
           [WriteEvent (delta_event (JObj [(''content'', JStr ''<think>\<newline>a'')])),
            WriteEvent (delta_event (JObj [(''content'', JStr ''b'')]))])
    \<and> feed rt initial_state [A, B, C]
        = (\<lparr>buffer = [], reasoningStarted = False\<rparr>,
           [WriteEvent (delta_event (JObj [(''content'', JStr ''<think>\<newline>a'')])),
            WriteEvent (delta_event (JObj [(''content'', JStr ''b'')])),
            WriteEvent (delta_event
              (JObj [(''content'', JStr ''</think>\<newline>\<newline>c'')]))])
    \<and> process_lines rt False [la]
        = (True, [WriteEvent (delta_event (JObj [(''content'', JStr ''<think>\<newline>a'')]))])
    \<and> process_lines rt False [la, lb]
        = (True, [WriteEvent (delta_event (JObj [(''content'', JStr ''<think>\<newline>a'')])),
                  WriteEvent (delta_event (JObj [(''content'', JStr ''b'')]))])
    \<and> process_lines rt False [la, lb, lc]
        = (False, [WriteEvent (delta_event (JObj [(''content'', JStr ''<think>\<newline>a'')])),
                   WriteEvent (delta_event (JObj [(''content'', JStr ''b'')])),
                   WriteEvent (delta_event
                     (JObj [(''content'', JStr ''</think>\<newline>\<newline>c'')]))])"
    by (simp add: a b c ca cb cc SHOW_REASONING_def initial_state_def)
  then show ?thesis
    unfolding A_def B_def C_def la_def lb_def lc_def .
qed

text \<open>The three events with nothing but their deltas, as three chunks.\<close>

theorem reasoning_toggle_sequence_witness:
  \<open>JSON_parse example_rt ''{"choices":[{"delta":{"reasoning_content":"a"}}]}''
     = Some (delta_event (JObj [(''reasoning_content'', JStr ''a'')]))
   \<and> JSON_parse example_rt ''{"choices":[{"delta":{"reasoning_content":"b"}}]}''
     = Some (delta_event (JObj [(''reasoning_content'', JStr ''b'')]))
   \<and> JSON_parse example_rt ''{"choices":[{"delta":{"content":"c"}}]}''
     = Some (delta_event (JObj [(''content'', JStr ''c'')]))
   \<and> feed example_rt initial_state
        [''data: '' @ ''{"choices":[{"delta":{"reasoning_content":"a"}}]}'' @ ''\<newline>\<newline>'']
     = (\<lparr>buffer = [], reasoningStarted = True\<rparr>,
        [WriteEvent (delta_event (JObj [(''content'', JStr ''<think>\<newline>a'')]))])
   \<and> feed example_rt initial_state
        [''data: '' @ ''{"choices":[{"delta":{"reasoning_content":"a"}}]}'' @ ''\<newline>\<newline>'',
         ''data: '' @ ''{"choices":[{"delta":{"reasoning_content":"b"}}]}'' @ ''\<newline>\<newline>'']
     = (\<lparr>buffer = [], reasoningStarted = True\<rparr>,
        [WriteEvent (delta_event (JObj [(''content'', JStr ''<think>\<newline>a'')])),
         WriteEvent (delta_event (JObj [(''content'', JStr ''b'')]))])
   \<and> feed example_rt initial_state
        [''data: '' @ ''{"choices":[{"delta":{"reasoning_content":"a"}}]}'' @ ''\<newline>\<newline>'',
         ''data: '' @ ''{"choices":[{"delta":{"reasoning_content":"b"}}]}'' @ ''\<newline>\<newline>'',
         ''data: '' @ ''{"choices":[{"delta":{"content":"c"}}]}'' @ ''\<newline>\<newline>'']
     = (\<lparr>buffer = [], reasoningStarted = False\<rparr>,
        [WriteEvent (delta_event (JObj [(''content'', JStr ''<think>\<newline>a'')])),
         WriteEvent (delta_event (JObj [(''content'', JStr ''b'')])),
         WriteEvent (delta_event
           (JObj [(''content'', JStr ''</think>\<newline>\<newline>c'')]))])
   \<and> process_lines example_rt False
        [''data: '' @ ''{"choices":[{"delta":{"reasoning_content":"a"}}]}'',
         ''data: '' @ ''{"choices":[{"delta":{"reasoning_content":"b"}}]}'',
         ''data: '' @ ''{"choices":[{"delta":{"content":"c"}}]}'']
     = (False, [WriteEvent (delta_event (JObj [(''content'', JStr ''<think>\<newline>a'')])),
                WriteEvent (delta_event (JObj [(''content'', JStr ''b'')])),
                WriteEvent (delta_event
                  (JObj [(''content'', JStr ''</think>\<newline>\<newline>c'')]))])\<close>
proof -
  have pa: \<open>JSON_parse example_rt ''{"choices":[{"delta":{"reasoning_content":"a"}}]}''
     = Some (delta_event (JObj [(''reasoning_content'', JStr ''a'')]))\<close>
    by (simp add: example_rt_def example_payloads_def)
  have pb: \<open>JSON_parse example_rt ''{"choices":[{"delta":{"reasoning_content":"b"}}]}''
     = Some (delta_event (JObj [(''reasoning_content'', JStr ''b'')]))\<close>
    by (simp add: example_rt_def example_payloads_def)
  have pc: \<open>JSON_parse example_rt ''{"choices":[{"delta":{"content":"c"}}]}''
     = Some (delta_event (JObj [(''content'', JStr ''c'')]))\<close>
    by (simp add: example_rt_def example_payloads_def)
  have na: \<open>\<not> str_includes (''data: '' @ ''{"choices":[{"delta":{"reasoning_content":"a"}}]}'')
      ''[DONE]''\<close> by simp
  have nb: \<open>\<not> str_includes (''data: '' @ ''{"choices":[{"delta":{"reasoning_content":"b"}}]}'')
      ''[DONE]''\<close> by simp
  have nc: \<open>\<not> str_includes (''data: '' @ ''{"choices":[{"delta":{"content":"c"}}]}'')
      ''[DONE]''\<close> by simp
  have la: \<open>CHR 0x0A \<notin> set ''{"choices":[{"delta":{"reasoning_content":"a"}}]}''\<close> by simp
  have lb: \<open>CHR 0x0A \<notin> set ''{"choices":[{"delta":{"reasoning_content":"b"}}]}''\<close> by simp
  have lc: \<open>CHR 0x0A \<notin> set ''{"choices":[{"delta":{"content":"c"}}]}''\<close> by simp
  have da: \<open>Buffer_toString
       (''data: '' @ ''{"choices":[{"delta":{"reasoning_content":"a"}}]}'' @ ''\<newline>\<newline>'')
     = ''data: '' @ ''{"choices":[{"delta":{"reasoning_content":"a"}}]}'' @ ''\<newline>\<newline>''\<close>
    by simp
  have db: \<open>Buffer_toString
       (''data: '' @ ''{"choices":[{"delta":{"reasoning_content":"b"}}]}'' @ ''\<newline>\<newline>'')
     = ''data: '' @ ''{"choices":[{"delta":{"reasoning_content":"b"}}]}'' @ ''\<newline>\<newline>''\<close>
    by simp
  have dc: \<open>Buffer_toString
       (''data: '' @ ''{"choices":[{"delta":{"content":"c"}}]}'' @ ''\<newline>\<newline>'')
     = ''data: '' @ ''{"choices":[{"delta":{"content":"c"}}]}'' @ ''\<newline>\<newline>''\<close>
    by simp
  have f: \<open>feed example_rt initial_state
        [''data: '' @ ''{"choices":[{"delta":{"reasoning_content":"a"}}]}'' @ ''\<newline>\<newline>'',
         ''data: '' @ ''{"choices":[{"delta":{"reasoning_content":"b"}}]}'' @ ''\<newline>\<newline>'',
         ''data: '' @ ''{"choices":[{"delta":{"content":"c"}}]}'' @ ''\<newline>\<newline>'']
     = (\<lparr>buffer = [], reasoningStarted = False\<rparr>,
        [WriteEvent (delta_event (JObj [(''content'', JStr ''<think>\<newline>a'')])),
         WriteEvent (delta_event (JObj [(''content'', JStr ''b'')])),
         WriteEvent (delta_event
           (JObj [(''content'', JStr ''</think>\<newline>\<newline>c'')]))])\<close>
    by code_simp
  from reasoning_toggle_sequence [OF pa pb pc na nb nc la lb lc da db dc] pa pb pc f
  show ?thesis by blast
qed

text \<open>
  With a block open, the terminator line and the end of the body write no closing marker
  and leave the block open.
\<close>

lemma open_block_not_closed:
  "process_line rt True ''data: [DONE]'' = (True, [WriteLine ''data: [DONE]''])
   \<and> on_end \<lparr>buffer = b, reasoningStarted = True\<rparr> = []"
  by (simp add: process_line_def on_end_def)

text \<open>
  C1. The specification has the merged content never leave a reasoning block open past
  the end of the stream. Only a transformed delta with visible content closes a block
  (\<open>combine_state\<close>); a data line that contains \<^verbatim>\<open>[DONE]\<close> is written as it
  came (\<open>process_line_done\<close>), and the \<^verbatim>\<open>end\<close> handler writes nothing. A
  stream whose only event carries reasoning, followed by \<^verbatim>\<open>[DONE]\<close> and the end of the
  body, is answered with the content \<^verbatim>\<open><think>\na\<close> and the terminator: the block is
  opened and never closed.
\<close>

theorem reasoning_block_left_open:
  \<open>feed example_rt initial_state
     [''data: {"choices":[{"delta":{"reasoning_content":"a"}}]}\<newline>\<newline>data: [DONE]\<newline>\<newline>'']
     = (\<lparr>buffer = [], reasoningStarted = True\<rparr>,
        [WriteEvent (delta_event (JObj [(''content'', JStr ''<think>\<newline>a'')])),
         WriteLine ''data: [DONE]''])
   \<and> stream_response example_rt
     [''data: {"choices":[{"delta":{"reasoning_content":"a"}}]}\<newline>\<newline>data: [DONE]\<newline>\<newline>'']
     = [WriteEvent (delta_event (JObj [(''content'', JStr ''<think>\<newline>a'')])),
        WriteLine ''data: [DONE]'']\<close>
  by code_simp

subsection \<open>Lines that are no events\<close>

text \<open>
  A line that begins with \<^verbatim>\<open>data: \<close> and whose payload does not parse is written as
  the handler has it, followed by one newline; the reasoning state is unchanged, nothing
  is thrown, and the lines after it are processed as if it had not been there.
\<close>

lemma malformed_line_forwarded:
  assumes "startsWith line ''data: ''" and "JSON_parse rt (drop 6 line) = None"
  shows "process_line rt started line = (started, [WriteLine line])
         \<and> map (wire rt) (snd (process_line rt started line)) = [line @ ''\<newline>'']
         \<and> process_lines rt started (line # lines) =
             (fst (process_lines rt started lines),
              WriteLine line # snd (process_lines rt started lines))"
  using assms by (simp add: process_line_def split: prod.splits)

text \<open>
  At the handler: where the chunk that brings the line decodes to its own bytes up to the
  end of the line, the bytes of the line are what the client receives, and the rest of
  the chunk is handled as if the line had not been there.
\<close>

lemma malformed_line_forwarded_by_handler:
  assumes "startsWith line ''data: ''" and "JSON_parse rt (drop 6 line) = None"
    and "CHR 0x0A \<notin> set line"
    and "Buffer_toString (line @ CHR 0x0A # rest) = line @ CHR 0x0A # Buffer_toString rest"
  shows "on_data rt \<lparr>buffer = [], reasoningStarted = r\<rparr> (line @ CHR 0x0A # rest)
           = (case on_data rt \<lparr>buffer = [], reasoningStarted = r\<rparr> rest of
                (st, out) \<Rightarrow> (st, WriteLine line # out))"
proof -
  have "process_line rt r line = (r, [WriteLine line])"
    using malformed_line_forwarded [OF assms(1,2)] by simp
  then show ?thesis
    using on_data_line [OF assms(4,3), of rt r] by (simp split: prod.splits)
qed

text \<open>
  C7. The specification has a data line whose payload does not parse forwarded as the
  original raw line, unmodified. The \<^verbatim>\<open>catch\<close> does write the line it was given
  (\<open>malformed_line_forwarded\<close>), and the client receives the bytes of the line where the
  chunks decode to their own bytes (\<open>malformed_line_forwarded_by_handler\<close>). The line it
  is given is made of chunks decoded one by one, as for C6: a truncated object that ends
  in U+00E9, delivered in two chunks cut between the two bytes of that character, does
  not parse either way and reaches the client with U+FFFD U+FFFD in place of U+00E9,
  while the same bytes in one chunk are forwarded as they came.
\<close>

theorem malformed_line_cut_inside_character:
  \<open>JSON_parse example_rt (''{"content":"'' @ e_acute) = None
   \<and> JSON_parse example_rt (''{"content":"'' @ REPLACEMENT @ REPLACEMENT) = None
   \<and> feed example_rt initial_state [''data: {"content":"'' @ e_acute @ ''\<newline>'']
     = (initial_state, [WriteLine (''data: {"content":"'' @ e_acute)])
   \<and> feed example_rt initial_state
        [''data: {"content":"'' @ [CHR 0xC3], [CHR 0xA9] @ ''\<newline>'']
     = (initial_state, [WriteLine (''data: {"content":"'' @ REPLACEMENT @ REPLACEMENT)])
   \<and> map (wire example_rt) [WriteLine (''data: {"content":"'' @ REPLACEMENT @ REPLACEMENT)]
     = [''data: {"content":"'' @ REPLACEMENT @ REPLACEMENT @ ''\<newline>'']
   \<and> (''data: {"content":"'' @ [CHR 0xC3]) @ ([CHR 0xA9] @ ''\<newline>'')
     = ''data: {"content":"'' @ e_acute @ ''\<newline>''
   \<and> ''data: {"content":"'' @ REPLACEMENT @ REPLACEMENT @ ''\<newline>''
     \<noteq> ''data: {"content":"'' @ e_acute @ ''\<newline>''\<close>
  by code_simp

text \<open>
  C10. A complete line that does not begin with \<^verbatim>\<open>data: \<close> (a blank separator, an
  \<^verbatim>\<open>event:\<close> line, a comment) writes nothing and leaves the reasoning state
  unchanged; and whatever a chunk makes the handler write begins with \<^verbatim>\<open>data: \<close>.
\<close>

theorem non_data_line_dropped:
  "(\<not> startsWith line ''data: '' \<longrightarrow> process_line rt started line = (started, []))
   \<and> list_all (\<lambda>w. startsWith (wire rt w) ''data: '') (snd (on_data rt st chunk))"
proof
  show "\<not> startsWith line ''data: '' \<longrightarrow> process_line rt started line = (started, [])"
    by (simp add: process_line_def)
next
  let ?lines = "butlast (split_newline (buffer st @ Buffer_toString chunk))"
  have "snd (on_data rt st chunk) = snd (process_lines rt (reasoningStarted st) ?lines)"
    by (simp add: on_data_def Let_def split: prod.splits)
  then show "list_all (\<lambda>w. startsWith (wire rt w) ''data: '') (snd (on_data rt st chunk))"
    using process_lines_write_data [of rt "reasoningStarted st" ?lines] by simp
qed

text \<open>A blank line, an event line and a comment; and a chunk that holds all three.\<close>

theorem non_data_line_dropped_witness:
  \<open>\<not> startsWith [] ''data: '' \<and> process_line example_rt True [] = (True, [])
   \<and> \<not> startsWith ''event: message'' ''data: ''
   \<and> process_line example_rt True ''event: message'' = (True, [])
   \<and> \<not> startsWith '': keep-alive'' ''data: ''
   \<and> process_line example_rt True '': keep-alive'' = (True, [])
   \<and> snd (on_data example_rt initial_state
             ''event: message\<newline>data: {}\<newline>\<newline>: keep-alive\<newline>'')
        = [WriteEvent (JObj [])]
   \<and> wire example_rt (WriteEvent (JObj [])) = ''data: {}\<newline>\<newline>''\<close>
proof -
  have a: "\<not> startsWith [] ''data: ''" "\<not> startsWith ''event: message'' ''data: ''"
    "\<not> startsWith '': keep-alive'' ''data: ''" by simp_all
  have b: \<open>snd (on_data example_rt initial_state
             ''event: message\<newline>data: {}\<newline>\<newline>: keep-alive\<newline>'')
        = [WriteEvent (JObj [])]\<close> by code_simp
  have c: \<open>wire example_rt (WriteEvent (JObj [])) = ''data: {}\<newline>\<newline>''\<close>
    by (simp add: example_rt_def example_payloads_def)
  from non_data_line_dropped [of "[]" example_rt True]
    non_data_line_dropped [of "''event: message''" example_rt True]
    non_data_line_dropped [of "'': keep-alive''" example_rt True] a b c
  show ?thesis by simp
qed

subsection \<open>The terminator\<close>

text \<open>
  C2, as amended. The terminator line \<^verbatim>\<open>data: [DONE]\<close> is written to the client
  byte for byte, followed by one newline, and leaves the reasoning state as it was. It
  does not end the emission: what follows it in the chunk is processed as it would have
  been without the terminator, and written after it.
\<close>

theorem done_line_forwarded:
  "on_data rt \<lparr>buffer = [], reasoningStarted = r\<rparr> (''data: [DONE]\<newline>'' @ chunk)
     = (case on_data rt \<lparr>buffer = [], reasoningStarted = r\<rparr> chunk of
          (st, out) \<Rightarrow> (st, WriteLine ''data: [DONE]'' # out))
   \<and> process_lines rt r (''data: [DONE]'' # lines)
     = (case process_lines rt r lines of
          (r', out) \<Rightarrow> (r', WriteLine ''data: [DONE]'' # out))
   \<and> wire rt (WriteLine ''data: [DONE]'') = ''data: [DONE]\<newline>''"
proof -
  have dec: "Buffer_toString (''data: [DONE]\<newline>'' @ chunk)
               = ''data: [DONE]\<newline>'' @ Buffer_toString chunk"
    by (rule Buffer_toString_ascii) simp
  obtain l ls where sp: "split_newline (Buffer_toString chunk) = l # ls"
    using split_newline_nonempty [of "Buffer_toString chunk"]
    by (cases "split_newline (Buffer_toString chunk)") auto
  have line: "process_line rt r ''data: [DONE]'' = (r, [WriteLine ''data: [DONE]''])"
    by (simp add: process_line_def)
  show ?thesis
    by (simp add: on_data_def dec sp line Let_def split: prod.splits)
qed

text \<open>
  C2 without the amendment fails: an event that follows the terminator is transformed
  and written.
\<close>

theorem events_after_done_emitted:
  \<open>feed example_rt initial_state [''data: [DONE]\<newline>data: {}\<newline>'']
     = (initial_state, [WriteLine ''data: [DONE]'', WriteEvent (JObj [])])\<close>
  by code_simp

subsection \<open>An event cut in two\<close>

text \<open>The two bytes of U+00E9 decoded together, and each by itself.\<close>

lemma decode_cut_character:
  "Buffer_toString [CHR 0xC3, CHR 0xA9] = [CHR 0xC3, CHR 0xA9]
   \<and> Buffer_toString [CHR 0xC3] @ Buffer_toString [CHR 0xA9] = REPLACEMENT @ REPLACEMENT"
  by (simp add: lead_def)

text \<open>
  C6. The specification has an event delivered in two chunks written as when delivered
  in one, wherever the cut falls. That holds where the cut falls between two characters
  (\<open>feed_split_between_characters\<close>, \<open>feed_split_ascii\<close>). Each chunk is decoded by
  itself, so a cut inside a character of several bytes turns both halves into U+FFFD:
  the event with the content U+00E9, cut between its two bytes, is written with the
  content U+FFFD U+FFFD.
\<close>

theorem split_inside_character:
  \<open>feed example_rt initial_state
      [''data: {"choices":[{"delta":{"content":"'' @ e_acute @ ''"}}]}\<newline>'']
     = (initial_state, [WriteEvent (delta_event (JObj [(''content'', JStr e_acute)]))])
   \<and> feed example_rt initial_state
      [''data: {"choices":[{"delta":{"content":"'' @ [CHR 0xC3],
       [CHR 0xA9] @ ''"}}]}\<newline>'']
     = (initial_state,
        [WriteEvent (delta_event (JObj [(''content'', JStr (REPLACEMENT @ REPLACEMENT))]))])
   \<and> e_acute = [CHR 0xC3] @ [CHR 0xA9]
   \<and> JStr e_acute \<noteq> JStr (REPLACEMENT @ REPLACEMENT)\<close>
  by code_simp


end
